theory Spec2Isabelle
  imports Main "HOL-Library.Word"
begin

unbundle bit_operations_syntax

section \<open>The shared-memory probe \<open>tests/integration/project/files/test_shm.c\<close>\<close>

text \<open>
  The probe is one C function, \<open>main\<close>, that calls \<open>shm_open\<close>, \<open>shm_unlink\<close>,
  \<open>close\<close>, \<open>strerror\<close>, \<open>fprintf\<close> and \<open>exit\<close>. The C library and the kernel
  behind it are not part of the repository, so the embedding takes them as a parameter
  (a record of operations over an arbitrary world state) and follows \<open>main\<close> line by
  line over that parameter.
\<close>

subsection \<open>C types\<close>

text \<open>Both \<open>int\<close> and \<open>mode_t\<close> are 32-bit words; an \<open>int\<close> is read as two's complement (\<open>sint\<close>, \<open><s\<close>), a \<open>mode_t\<close> as unsigned.\<close>

type_synonym cint = "32 word"
type_synonym mode_t = "32 word"

subsection \<open>Constants of \<open>fcntl.h\<close>, \<open>sys/stat.h\<close> and \<open>errno.h\<close>\<close>

text \<open>
  The headers are the platform's; the values are those of Linux with glibc (octal in the
  headers: \<open>O_CREAT\<close> is 0100, \<open>O_EXCL\<close> 0200, \<open>S_IRUSR\<close> 0400, \<open>S_IWUSR\<close> 0200,
  \<open>S_IXUSR\<close> 0100), and \<open>S_IRWXU\<close> is the disjunction of the three owner bits as in
  \<open>sys/stat.h\<close>.
\<close>

definition O_RDONLY :: cint where "O_RDONLY = 0"
definition O_WRONLY :: cint where "O_WRONLY = 1"
definition O_RDWR :: cint where "O_RDWR = 2"
definition O_ACCMODE :: cint where "O_ACCMODE = 3"
definition O_CREAT :: cint where "O_CREAT = 64"
definition O_EXCL :: cint where "O_EXCL = 128"

definition S_IRUSR :: mode_t where "S_IRUSR = 256"
definition S_IWUSR :: mode_t where "S_IWUSR = 128"
definition S_IXUSR :: mode_t where "S_IXUSR = 64"
definition S_IRWXU :: mode_t where "S_IRWXU = S_IRUSR OR S_IWUSR OR S_IXUSR"

definition ENOENT :: cint where "ENOENT = 2"
definition EBADF :: cint where "EBADF = 9"
definition EACCES :: cint where "EACCES = 13"
definition EEXIST :: cint where "EEXIST = 17"
definition EMFILE :: cint where "EMFILE = 24"

subsection \<open>The platform as a parameter\<close>

text \<open>
  Each operation takes the world and returns the C return value with the new world;
  \<open>errno\<close> reads the calling thread's error number out of the world, and \<open>strerror\<close>
  maps an error number to its description.
\<close>

record 'w platform =
  shm_open :: "string \<Rightarrow> cint \<Rightarrow> mode_t \<Rightarrow> 'w \<Rightarrow> cint \<times> 'w"
  shm_unlink :: "string \<Rightarrow> 'w \<Rightarrow> cint \<times> 'w"
  close :: "cint \<Rightarrow> 'w \<Rightarrow> cint \<times> 'w"
  errno :: "'w \<Rightarrow> cint"
  strerror :: "cint \<Rightarrow> string"

subsection \<open>The process\<close>

text \<open>
  What an observer sees of a run: the library calls the process made, in order, with
  their arguments; the bytes it wrote to the error stream; and the world it left.
\<close>

datatype call =
    Shm_open string cint mode_t
  | Shm_unlink string
  | Close cint
  | Fprintf_stderr string
  | Exit cint

record 'w proc =
  world :: 'w
  stderr :: string
  trace :: "call list"

definition call_shm_open ::
  "'w platform \<Rightarrow> string \<Rightarrow> cint \<Rightarrow> mode_t \<Rightarrow> 'w proc \<Rightarrow> cint \<times> 'w proc" where
  "call_shm_open P name oflag mode s =
     (let (r, w') = shm_open P name oflag mode (world s)
      in (r, s\<lparr>world := w', trace := trace s @ [Shm_open name oflag mode]\<rparr>))"

definition call_shm_unlink :: "'w platform \<Rightarrow> string \<Rightarrow> 'w proc \<Rightarrow> cint \<times> 'w proc" where
  "call_shm_unlink P name s =
     (let (r, w') = shm_unlink P name (world s)
      in (r, s\<lparr>world := w', trace := trace s @ [Shm_unlink name]\<rparr>))"

definition call_close :: "'w platform \<Rightarrow> cint \<Rightarrow> 'w proc \<Rightarrow> cint \<times> 'w proc" where
  "call_close P fd s =
     (let (r, w') = close P fd (world s)
      in (r, s\<lparr>world := w', trace := trace s @ [Close fd]\<rparr>))"

text \<open>\<open>fprintf (stderr, fmt, ...)\<close> with the format already expanded to \<open>msg\<close>.\<close>

definition fprintf_stderr :: "string \<Rightarrow> 'w proc \<Rightarrow> 'w proc" where
  "fprintf_stderr msg s = s\<lparr>stderr := stderr s @ msg, trace := trace s @ [Fprintf_stderr msg]\<rparr>"

text \<open>\<open>exit (status)\<close> ends the process: nothing of \<open>main\<close> runs after it.\<close>

definition exit :: "cint \<Rightarrow> 'w proc \<Rightarrow> cint \<times> 'w proc" where
  "exit status s = (status, s\<lparr>trace := trace s @ [Exit status]\<rparr>)"

text \<open>
  \<open>main\<close>, lines 10 to 29. The result is the exit status of the process (the argument
  of \<open>exit\<close>, or the value \<open>main\<close> returns) with the final process state.
\<close>

definition main :: "'w platform \<Rightarrow> 'w proc \<Rightarrow> cint \<times> 'w proc" where
  "main P s0 =
     (let (fd, s1) = call_shm_open P ''/foo'' (O_RDONLY OR O_CREAT) S_IRWXU s0 in
      if fd <s 0 then
        exit 1 (fprintf_stderr
          (''Failed to open shm: '' @ strerror P (errno P (world s1)) @ [CHR 0x0A]) s1)
      else
        let (success, s2) = call_shm_unlink P ''/foo'' s1 in
        if success <s 0 then
          exit 2 (fprintf_stderr
            (''Failed to close shm: '' @ strerror P (errno P (world s2)) @ [CHR 0x0A]) s2)
        else
          let (r, s3) = call_close P fd s2 in
          (0, s3))"

text \<open>A run of the probe: \<open>main\<close> started in world \<open>w\<close>, nothing written or called yet.\<close>

definition run_probe :: "'w platform \<Rightarrow> 'w \<Rightarrow> cint \<times> 'w proc" where
  "run_probe P w = main P \<lparr>world = w, stderr = [], trace = []\<rparr>"

definition exit_status :: "cint \<times> 'w proc \<Rightarrow> cint" where
  "exit_status r = fst r"

definition final :: "cint \<times> 'w proc \<Rightarrow> 'w proc" where
  "final r = snd r"

text \<open>The two platform results \<open>main\<close> branches on, and the worlds between the calls.\<close>

definition open_result :: "'w platform \<Rightarrow> 'w \<Rightarrow> cint \<times> 'w" where
  "open_result P w = shm_open P ''/foo'' (O_RDONLY OR O_CREAT) S_IRWXU w"

definition unlink_result :: "'w platform \<Rightarrow> 'w \<Rightarrow> cint \<times> 'w" where
  "unlink_result P w = shm_unlink P ''/foo'' (snd (open_result P w))"

definition open_fails :: "'w platform \<Rightarrow> 'w \<Rightarrow> bool" where
  "open_fails P w = (fst (open_result P w) <s 0)"

definition unlink_fails :: "'w platform \<Rightarrow> 'w \<Rightarrow> bool" where
  "unlink_fails P w = (fst (unlink_result P w) <s 0)"


fun is_shm_unlink :: "call \<Rightarrow> bool" where
  "is_shm_unlink (Shm_unlink name) = True"
| "is_shm_unlink c = False"

fun is_close :: "call \<Rightarrow> bool" where
  "is_close (Close fd) = True"
| "is_close c = False"

subsection \<open>The run as the platform sees it\<close>

text \<open>
  A platform can keep a log of what it was asked: for each call it served, the
  arguments, the value it returned and the world it left. \<open>recording P\<close> is the
  platform \<open>P\<close> with such a log beside its world, and \<open>served P w\<close> is the log that a
  run of the probe from world \<open>w\<close> leaves: the calls that reached the platform during
  that run, in order, each with its result.
\<close>

datatype 'w served =
    Served_open string cint mode_t cint 'w
  | Served_unlink string cint 'w
  | Served_close cint cint 'w

definition recording :: "'w platform \<Rightarrow> ('w \<times> 'w served list) platform" where
  "recording P =
     \<lparr>shm_open = (\<lambda>name oflag mode wl.
        let (r, w') = shm_open P name oflag mode (fst wl)
        in (r, (w', snd wl @ [Served_open name oflag mode r w']))),
      shm_unlink = (\<lambda>name wl.
        let (r, w') = shm_unlink P name (fst wl)
        in (r, (w', snd wl @ [Served_unlink name r w']))),
      close = (\<lambda>fd wl.
        let (r, w') = close P fd (fst wl)
        in (r, (w', snd wl @ [Served_close fd r w']))),
      errno = (\<lambda>wl. errno P (fst wl)),
      strerror = strerror P\<rparr>"

definition served :: "'w platform \<Rightarrow> 'w \<Rightarrow> 'w served list" where
  "served P w = snd (world (final (run_probe (recording P) (w, []))))"


section \<open>A reference platform\<close>

text \<open>
  Modelled from the spec: the platform's shared-memory subsystem (\<open>shm_open\<close>,
  \<open>shm_unlink\<close>, \<open>close\<close>, \<open>errno\<close> and \<open>strerror\<close> of the C library), which the
  probe calls and the repository does not contain. The spec's data model: a global
  namespace of named segments with permission bits, a segment "created (or opened if
  pre-existing)", referenced by an open descriptor, "removed from the global namespace by
  an explicit unlink call", where "the segment must exist before unlink can succeed".
  The rest is the POSIX reading of the two calls for a caller that owns the segments and
  is not privileged: a failed call returns -1 and sets \<open>errno\<close>; a descriptor is the
  lowest free slot of the process's descriptor table; a segment that \<open>shm_open\<close>
  creates gets the bits of the mode argument that the process's file mode creation mask
  does not clear.
\<close>

record shm_state =
  namespace :: "string \<rightharpoonup> mode_t"
  fdtable :: "cint option list"
  umask :: mode_t
  errno_val :: cint

text \<open>
  \<open>namespace\<close> maps a name to the permission bits of its segment; slot \<open>i\<close> of
  \<open>fdtable\<close> is \<open>Some acc\<close> when descriptor \<open>i\<close> is open with access mode \<open>acc\<close>,
  and the length of the table is the limit on open descriptors; \<open>umask\<close> is the
  file mode creation mask of the process.
\<close>

fun first_free :: "'a option list \<Rightarrow> nat option" where
  "first_free [] = None"
| "first_free (None # xs) = Some 0"
| "first_free (Some x # xs) = map_option Suc (first_free xs)"

definition fail :: "cint \<Rightarrow> shm_state \<Rightarrow> cint \<times> shm_state" where
  "fail e w = (- 1, w\<lparr>errno_val := e\<rparr>)"

definition may_open :: "mode_t \<Rightarrow> cint \<Rightarrow> bool" where
  "may_open perm oflag =
     (if oflag AND O_ACCMODE = O_RDONLY then perm AND S_IRUSR \<noteq> 0
      else if oflag AND O_ACCMODE = O_WRONLY then perm AND S_IWUSR \<noteq> 0
      else perm AND S_IRUSR \<noteq> 0 \<and> perm AND S_IWUSR \<noteq> 0)"

definition posix_shm_open :: "string \<Rightarrow> cint \<Rightarrow> mode_t \<Rightarrow> shm_state \<Rightarrow> cint \<times> shm_state" where
  "posix_shm_open name oflag mode w =
     (case first_free (fdtable w) of
        None \<Rightarrow> fail EMFILE w
      | Some i \<Rightarrow>
          if 2 ^ 31 \<le> i then fail EMFILE w
          else
            (case namespace w name of
               Some perm \<Rightarrow>
                 if oflag AND O_CREAT \<noteq> 0 \<and> oflag AND O_EXCL \<noteq> 0 then fail EEXIST w
                 else if \<not> may_open perm oflag then fail EACCES w
                 else (of_nat i, w\<lparr>fdtable := (fdtable w)[i := Some (oflag AND O_ACCMODE)]\<rparr>)
             | None \<Rightarrow>
                 if oflag AND O_CREAT = 0 then fail ENOENT w
                 else (of_nat i,
                       w\<lparr>namespace := (namespace w)(name \<mapsto> mode AND NOT (umask w)),
                         fdtable := (fdtable w)[i := Some (oflag AND O_ACCMODE)]\<rparr>)))"

definition posix_shm_unlink :: "string \<Rightarrow> shm_state \<Rightarrow> cint \<times> shm_state" where
  "posix_shm_unlink name w =
     (case namespace w name of
        None \<Rightarrow> fail ENOENT w
      | Some perm \<Rightarrow> (0, w\<lparr>namespace := (namespace w)(name := None)\<rparr>))"

definition fd_access :: "shm_state \<Rightarrow> cint \<Rightarrow> cint option" where
  "fd_access w fd =
     (if fd <s 0 \<or> length (fdtable w) \<le> nat (sint fd) then None
      else fdtable w ! nat (sint fd))"

definition fd_open :: "shm_state \<Rightarrow> cint \<Rightarrow> bool" where
  "fd_open w fd = (fd_access w fd \<noteq> None)"

definition posix_close :: "cint \<Rightarrow> shm_state \<Rightarrow> cint \<times> shm_state" where
  "posix_close fd w =
     (if fd_open w fd then (0, w\<lparr>fdtable := (fdtable w)[nat (sint fd) := None]\<rparr>)
      else fail EBADF w)"

definition posix_strerror :: "cint \<Rightarrow> string" where
  "posix_strerror e =
     (if e = ENOENT then ''No such file or directory''
      else if e = EBADF then ''Bad file descriptor''
      else if e = EACCES then ''Permission denied''
      else if e = EEXIST then ''File exists''
      else if e = EMFILE then ''Too many open files''
      else ''Unknown error'')"

definition posix :: "shm_state platform" where
  "posix = \<lparr>shm_open = posix_shm_open, shm_unlink = posix_shm_unlink,
            close = posix_close, errno = errno_val, strerror = posix_strerror\<rparr>"

text \<open>A descriptor can be handed out: the table has a free slot that an \<open>int\<close> can name.\<close>

definition fd_available :: "shm_state \<Rightarrow> bool" where
  "fd_available w = (case first_free (fdtable w) of None \<Rightarrow> False | Some i \<Rightarrow> i < 2 ^ 31)"

text \<open>
  The reference platform with another actor that removes the name between the probe's
  two calls, the spec's example of a failing unlink.
\<close>

definition racing :: "shm_state platform" where
  "racing = posix\<lparr>shm_unlink :=
     \<lambda>name w. posix_shm_unlink name (w\<lparr>namespace := (namespace w)(name := None)\<rparr>)\<rparr>"

text \<open>
  Worlds of a freshly started process: descriptors 0, 1 and 2 are open and the table has
  room for a fourth, and the file mode creation mask is octal 022. The namespace is
  empty, or holds \<open>/foo\<close> without any permission bit, or holds \<open>/foo\<close> readable by
  its owner. In \<open>masked\<close> the namespace is empty and the mask is octal 177.
\<close>

definition fresh :: shm_state where
  "fresh = \<lparr>namespace = Map.empty, fdtable = [Some O_RDONLY, Some O_WRONLY, Some O_WRONLY, None],
            umask = 18, errno_val = 0\<rparr>"

definition locked :: shm_state where
  "locked = fresh\<lparr>namespace := [''/foo'' \<mapsto> 0]\<rparr>"



section \<open>Properties of every run\<close>

lemma run_probe_open_fails:
  assumes "open_fails P w"
  shows "run_probe P w =
    (1, \<lparr>world = snd (open_result P w),
         stderr = ''Failed to open shm: '' @ strerror P (errno P (snd (open_result P w))) @ [CHR 0x0A],
         trace = [Shm_open ''/foo'' (O_RDONLY OR O_CREAT) S_IRWXU,
                  Fprintf_stderr (''Failed to open shm: ''
                    @ strerror P (errno P (snd (open_result P w))) @ [CHR 0x0A]),
                  Exit 1]\<rparr>)"
  using assms
  by (simp add: run_probe_def main_def call_shm_open_def open_fails_def open_result_def
      fprintf_stderr_def exit_def Let_def case_prod_beta)

lemma run_probe_unlink_fails:
  assumes "\<not> open_fails P w" and "unlink_fails P w"
  shows "run_probe P w =
    (2, \<lparr>world = snd (unlink_result P w),
         stderr = ''Failed to close shm: '' @ strerror P (errno P (snd (unlink_result P w))) @ [CHR 0x0A],
         trace = [Shm_open ''/foo'' (O_RDONLY OR O_CREAT) S_IRWXU,
                  Shm_unlink ''/foo'',
                  Fprintf_stderr (''Failed to close shm: ''
                    @ strerror P (errno P (snd (unlink_result P w))) @ [CHR 0x0A]),
                  Exit 2]\<rparr>)"
  using assms
  by (simp add: run_probe_def main_def call_shm_open_def call_shm_unlink_def
      open_fails_def open_result_def unlink_fails_def unlink_result_def
      fprintf_stderr_def exit_def Let_def case_prod_beta)

lemma run_probe_success:
  assumes "\<not> open_fails P w" and "\<not> unlink_fails P w"
  shows "run_probe P w =
    (0, \<lparr>world = snd (close P (fst (open_result P w)) (snd (unlink_result P w))),
         stderr = [],
         trace = [Shm_open ''/foo'' (O_RDONLY OR O_CREAT) S_IRWXU,
                  Shm_unlink ''/foo'',
                  Close (fst (open_result P w))]\<rparr>)"
  using assms
  by (simp add: run_probe_def main_def call_shm_open_def call_shm_unlink_def call_close_def
      open_fails_def open_result_def unlink_fails_def unlink_result_def
      Let_def case_prod_beta)

lemma exit_status_open_fails: "open_fails P w \<Longrightarrow> exit_status (run_probe P w) = 1"
  by (simp add: run_probe_open_fails exit_status_def)

lemma exit_status_unlink_fails:
  "\<not> open_fails P w \<Longrightarrow> unlink_fails P w \<Longrightarrow> exit_status (run_probe P w) = 2"
  by (simp add: run_probe_unlink_fails exit_status_def)

lemma exit_status_success:
  "\<not> open_fails P w \<Longrightarrow> \<not> unlink_fails P w \<Longrightarrow> exit_status (run_probe P w) = 0"
  by (simp add: run_probe_success exit_status_def)


section \<open>The reference platform and its worlds\<close>

lemma sless_of_nat: "i < 2 ^ 31 \<Longrightarrow> \<not> (of_nat i :: cint) <s 0"
  by (simp add: word_sless_alt signed_of_nat signed_take_bit_int_eq_self)

lemma sint_of_nat: "i < 2 ^ 31 \<Longrightarrow> nat (sint (of_nat i :: cint)) = i"
  by (simp add: signed_of_nat signed_take_bit_int_eq_self)

lemma first_free_Some: "first_free xs = Some i \<Longrightarrow> i < length xs \<and> xs ! i = None"
proof (induction xs arbitrary: i rule: first_free.induct)
  case 1
  then show ?case by simp
next
  case (2 xs)
  then show ?case by simp
next
  case (3 x xs)
  then show ?case by auto
qed

lemma probe_flags:
  "(O_RDONLY OR O_CREAT) AND O_ACCMODE = O_RDONLY"
  "(O_RDONLY OR O_CREAT) AND O_CREAT = O_CREAT"
  "O_CREAT \<noteq> 0"
  "(O_RDONLY OR O_CREAT) AND O_EXCL = 0"
  by (simp_all add: O_RDONLY_def O_CREAT_def O_ACCMODE_def O_EXCL_def)

lemma S_IRWXU_value: "S_IRWXU = 448"
  by (simp add: S_IRWXU_def S_IRUSR_def S_IWUSR_def S_IXUSR_def)

lemma fail_negative: "fst (fail e w) <s 0"
  by (simp add: fail_def word_sless_alt)

lemma posix_ops:
  "shm_open posix = posix_shm_open"
  "shm_unlink posix = posix_shm_unlink"
  "close posix = posix_close"
  "errno posix = errno_val"
  "strerror posix = posix_strerror"
  by (simp_all add: posix_def)

lemma posix_open_absent:
  assumes "namespace w ''/foo'' = None" and "first_free (fdtable w) = Some i" and "i < 2 ^ 31"
  shows "open_result posix w =
    (of_nat i, w\<lparr>namespace := (namespace w)(''/foo'' \<mapsto> S_IRWXU AND NOT (umask w)),
                 fdtable := (fdtable w)[i := Some O_RDONLY]\<rparr>)"
  using assms by (simp add: open_result_def posix_ops posix_shm_open_def probe_flags)

lemma posix_open_present:
  assumes "namespace w ''/foo'' = Some perm" and "first_free (fdtable w) = Some i" and "i < 2 ^ 31"
  shows "open_result posix w =
    (if perm AND S_IRUSR \<noteq> 0 then (of_nat i, w\<lparr>fdtable := (fdtable w)[i := Some O_RDONLY]\<rparr>)
     else fail EACCES w)"
  using assms
  by (simp add: open_result_def posix_ops posix_shm_open_def probe_flags may_open_def)

lemma posix_open_no_fd:
  assumes "\<not> fd_available w"
  shows "open_result posix w = fail EMFILE w"
  using assms
  by (simp add: open_result_def posix_ops posix_shm_open_def fd_available_def
      split: option.splits)

text \<open>
  On the reference platform a probe that finds the name absent and a free descriptor
  creates the segment, removes the name again and gives the descriptor back.
\<close>

lemma posix_unlink_absent:
  assumes absent: "namespace w ''/foo'' = None"
    and free: "first_free (fdtable w) = Some i" and small: "i < 2 ^ 31"
  shows "unlink_result posix w = (0, w\<lparr>fdtable := (fdtable w)[i := Some O_RDONLY]\<rparr>)"
proof -
  have ns: "(namespace w)(''/foo'' := None) = namespace w"
    using absent by (simp add: fun_upd_idem_iff)
  show ?thesis
    by (simp add: unlink_result_def posix_open_absent [OF assms] posix_ops
        posix_shm_unlink_def ns)
qed

lemma posix_close_absent:
  assumes absent: "namespace w ''/foo'' = None"
    and free: "first_free (fdtable w) = Some i" and small: "i < 2 ^ 31"
  shows "close posix (fst (open_result posix w)) (snd (unlink_result posix w)) = (0, w)"
proof -
  let ?w2 = "w\<lparr>fdtable := (fdtable w)[i := Some O_RDONLY]\<rparr>"
  have slot: "i < length (fdtable w)" "fdtable w ! i = None"
    using first_free_Some [OF free] by simp_all
  have "fd_open ?w2 (of_nat i)"
    using small slot by (simp add: fd_open_def fd_access_def sless_of_nat sint_of_nat)
  then have "close posix (of_nat i) ?w2 = (0, ?w2\<lparr>fdtable := (fdtable ?w2)[i := None]\<rparr>)"
    using small by (simp add: posix_ops posix_close_def sint_of_nat)
  also have "?w2\<lparr>fdtable := (fdtable ?w2)[i := None]\<rparr> = w"
    using slot by (simp add: list_update_same_conv)
  finally show ?thesis
    by (simp add: posix_open_absent [OF assms] posix_unlink_absent [OF assms])
qed

lemma posix_absent_both_succeed:
  assumes absent: "namespace w ''/foo'' = None"
    and free: "first_free (fdtable w) = Some i" and small: "i < 2 ^ 31"
  shows "\<not> open_fails posix w" and "\<not> unlink_fails posix w"
proof -
  show "\<not> open_fails posix w"
    using small by (simp add: open_fails_def posix_open_absent [OF assms] sless_of_nat)
  show "\<not> unlink_fails posix w"
    by (simp add: unlink_fails_def posix_unlink_absent [OF assms] word_sless_alt)
qed

lemma posix_run_absent:
  assumes absent: "namespace w ''/foo'' = None"
    and free: "first_free (fdtable w) = Some i" and small: "i < 2 ^ 31"
  shows "run_probe posix w =
    (0, \<lparr>world = w,
         stderr = [],
         trace = [Shm_open ''/foo'' (O_RDONLY OR O_CREAT) S_IRWXU,
                  Shm_unlink ''/foo'', Close (of_nat i)]\<rparr>)"
  by (simp add: run_probe_success [OF posix_absent_both_succeed [OF assms]]
      posix_close_absent [OF assms])
    (simp add: posix_open_absent [OF assms])

lemma fd_availableE:
  assumes "fd_available w"
  obtains i where "first_free (fdtable w) = Some i" and "i < 2 ^ 31"
  using assms by (auto simp: fd_available_def split: option.splits)

lemma posix_absent_open_succeeds:
  assumes "namespace w ''/foo'' = None" and "fd_available w"
  shows "\<not> open_fails posix w"
proof -
  from assms(2) obtain i where i: "first_free (fdtable w) = Some i" "i < 2 ^ 31"
    by (rule fd_availableE)
  show ?thesis
    using i(2) by (simp add: open_fails_def posix_open_absent [OF assms(1) i] sless_of_nat)
qed


lemma posix_unlink_after_open:
  assumes "\<not> open_fails posix w"
  shows "\<not> unlink_fails posix w"
proof -
  have avail: "fd_available w"
  proof (rule ccontr)
    assume "\<not> fd_available w"
    then have "open_fails posix w"
      by (simp add: open_fails_def posix_open_no_fd fail_negative)
    with assms show False by simp
  qed
  then obtain i where i: "first_free (fdtable w) = Some i" "i < 2 ^ 31"
    by (rule fd_availableE)
  have "namespace (snd (open_result posix w)) ''/foo'' \<noteq> None"
  proof (cases "namespace w ''/foo''")
    case None
    then show ?thesis by (simp add: posix_open_absent [OF None i])
  next
    case (Some perm)
    with assms show ?thesis
      by (simp add: posix_open_present [OF Some i] open_fails_def fail_negative
          split: if_splits)
  qed
  then show ?thesis
    by (auto simp: unlink_fails_def unlink_result_def posix_ops posix_shm_unlink_def
        word_sless_alt)
qed

lemma posix_run_absent_available:
  assumes "namespace w ''/foo'' = None" and "fd_available w"
  shows "exit_status (run_probe posix w) = 0 \<and> world (final (run_probe posix w)) = w"
proof -
  from assms(2) obtain i where i: "first_free (fdtable w) = Some i" "i < 2 ^ 31"
    by (rule fd_availableE)
  show ?thesis
    by (simp add: posix_run_absent [OF assms(1) i] exit_status_def final_def)
qed


subsection \<open>The worlds of a fresh process, evaluated\<close>

lemma fresh_first_free: "first_free (fdtable fresh) = Some 3"
  by (simp add: fresh_def)

lemma locked_open_result: "open_result posix locked = fail EACCES locked"
proof -
  have "namespace locked ''/foo'' = Some 0" and "first_free (fdtable locked) = Some 3"
    by (simp_all add: locked_def fresh_def)
  then show ?thesis by (simp add: posix_open_present)
qed

lemma locked_open_fails: "open_fails posix locked"
  by (simp add: open_fails_def locked_open_result fail_negative)

lemma locked_reason:
  "strerror posix (errno posix (snd (open_result posix locked))) = ''Permission denied''"
  by (simp add: locked_open_result fail_def posix_ops posix_strerror_def
      EACCES_def ENOENT_def EBADF_def)

lemma fresh_open_result:
  "open_result posix fresh =
     (3, \<lparr>namespace = [''/foo'' \<mapsto> S_IRWXU],
          fdtable = [Some O_RDONLY, Some O_WRONLY, Some O_WRONLY, Some O_RDONLY],
          umask = 18, errno_val = 0\<rparr>)"
proof -
  have "namespace fresh ''/foo'' = None" by (simp add: fresh_def)
  from posix_open_absent [OF this fresh_first_free]
  show ?thesis by (simp add: fresh_def S_IRWXU_value)
qed

lemma fresh_open_succeeds: "\<not> open_fails posix fresh"
  by (simp add: open_fails_def fresh_open_result word_sless_alt)

lemma racing_ops:
  "shm_open racing = posix_shm_open"
  "shm_unlink racing =
     (\<lambda>name w. posix_shm_unlink name (w\<lparr>namespace := (namespace w)(name := None)\<rparr>))"
  "close racing = posix_close"
  "errno racing = errno_val"
  "strerror racing = posix_strerror"
  by (simp_all add: racing_def posix_def)

lemma racing_open_result: "open_result racing w = open_result posix w"
  by (simp add: open_result_def racing_ops posix_ops)

lemma racing_unlink_result:
  "unlink_result racing fresh =
     fail ENOENT \<lparr>namespace = Map.empty,
       fdtable = [Some O_RDONLY, Some O_WRONLY, Some O_WRONLY, Some O_RDONLY],
       umask = 18, errno_val = 0\<rparr>"
proof -
  have "unlink_result racing fresh = shm_unlink racing ''/foo'' (snd (open_result posix fresh))"
    by (simp only: unlink_result_def racing_open_result)
  also have "\<dots> = fail ENOENT \<lparr>namespace = Map.empty,
       fdtable = [Some O_RDONLY, Some O_WRONLY, Some O_WRONLY, Some O_RDONLY],
       umask = 18, errno_val = 0\<rparr>"
    by (simp add: fresh_open_result racing_ops posix_shm_unlink_def)
  finally show ?thesis .
qed

lemma racing_open_succeeds: "\<not> open_fails racing fresh"
  using fresh_open_succeeds by (simp add: open_fails_def racing_open_result)

lemma racing_unlink_fails: "unlink_fails racing fresh"
  by (simp add: unlink_fails_def racing_unlink_result fail_negative)

lemma racing_reason:
  "strerror racing (errno racing (snd (unlink_result racing fresh))) =
     ''No such file or directory''"
  by (simp add: racing_unlink_result fail_def racing_ops posix_strerror_def ENOENT_def)

lemma fresh_final_world: "world (final (run_probe posix fresh)) = fresh"
proof -
  have "namespace fresh ''/foo'' = None" by (simp add: fresh_def)
  from posix_run_absent [OF this fresh_first_free]
  show ?thesis by (simp add: final_def)
qed

lemma fresh_fd_3_closed: "\<not> fd_open fresh 3"
  by (simp add: fd_open_def fd_access_def fresh_def)

lemma fresh_absent: "namespace fresh ''/foo'' = None"
  by (simp add: fresh_def)

lemma fresh_fd_available: "fd_available fresh"
  by (simp add: fd_available_def fresh_first_free)

lemma fresh_unlink_succeeds: "\<not> unlink_fails posix fresh"
  by (rule posix_unlink_after_open [OF fresh_open_succeeds])





subsection \<open>The log of a recording platform\<close>

lemma recording_ops:
  "shm_open (recording P) = (\<lambda>name oflag mode wl.
     let (r, w') = shm_open P name oflag mode (fst wl)
     in (r, (w', snd wl @ [Served_open name oflag mode r w'])))"
  "shm_unlink (recording P) = (\<lambda>name wl.
     let (r, w') = shm_unlink P name (fst wl)
     in (r, (w', snd wl @ [Served_unlink name r w'])))"
  "close (recording P) = (\<lambda>fd wl.
     let (r, w') = close P fd (fst wl)
     in (r, (w', snd wl @ [Served_close fd r w'])))"
  "errno (recording P) = (\<lambda>wl. errno P (fst wl))"
  "strerror (recording P) = strerror P"
  by (simp_all add: recording_def)

lemma recording_open_result:
  "open_result (recording P) (w, l) =
     (fst (open_result P w), snd (open_result P w),
      l @ [Served_open ''/foo'' (O_RDONLY OR O_CREAT) S_IRWXU
             (fst (open_result P w)) (snd (open_result P w))])"
  by (simp add: open_result_def recording_ops case_prod_beta)

lemma recording_unlink_result:
  "unlink_result (recording P) (w, l) =
     (fst (unlink_result P w), snd (unlink_result P w),
      l @ [Served_open ''/foo'' (O_RDONLY OR O_CREAT) S_IRWXU
             (fst (open_result P w)) (snd (open_result P w)),
           Served_unlink ''/foo'' (fst (unlink_result P w)) (snd (unlink_result P w))])"
  by (simp add: unlink_result_def recording_open_result recording_ops case_prod_beta)

lemma recording_fails:
  "open_fails (recording P) (w, l) = open_fails P w"
  "unlink_fails (recording P) (w, l) = unlink_fails P w"
  by (simp_all add: open_fails_def unlink_fails_def recording_open_result
      recording_unlink_result)

text \<open>Recording changes nothing of the run: same exit status, same calls, same output.\<close>

lemma recording_same_run:
  "exit_status (run_probe (recording P) (w, [])) = exit_status (run_probe P w)"
  "trace (final (run_probe (recording P) (w, []))) = trace (final (run_probe P w))"
  "stderr (final (run_probe (recording P) (w, []))) = stderr (final (run_probe P w))"
  "fst (world (final (run_probe (recording P) (w, [])))) = world (final (run_probe P w))"
proof -
  consider "open_fails P w" | "\<not> open_fails P w" "unlink_fails P w"
    | "\<not> open_fails P w" "\<not> unlink_fails P w"
    by blast
  then have "exit_status (run_probe (recording P) (w, [])) = exit_status (run_probe P w)
    \<and> trace (final (run_probe (recording P) (w, []))) = trace (final (run_probe P w))
    \<and> stderr (final (run_probe (recording P) (w, []))) = stderr (final (run_probe P w))
    \<and> fst (world (final (run_probe (recording P) (w, [])))) = world (final (run_probe P w))"
  proof cases
    case 1
    then show ?thesis
      by (simp add: run_probe_open_fails recording_fails exit_status_def final_def
          recording_open_result recording_ops)
  next
    case 2
    then show ?thesis
      by (simp add: run_probe_unlink_fails recording_fails exit_status_def final_def
          recording_unlink_result recording_ops)
  next
    case 3
    then show ?thesis
      by (simp add: run_probe_success recording_fails exit_status_def final_def
          recording_open_result recording_unlink_result recording_ops case_prod_beta)
  qed
  then show
    "exit_status (run_probe (recording P) (w, [])) = exit_status (run_probe P w)"
    "trace (final (run_probe (recording P) (w, []))) = trace (final (run_probe P w))"
    "stderr (final (run_probe (recording P) (w, []))) = stderr (final (run_probe P w))"
    "fst (world (final (run_probe (recording P) (w, [])))) = world (final (run_probe P w))"
    by simp_all
qed













section \<open>The claims\<close>

text \<open>
  C1. Whenever the open-or-create of the shared-memory object fails, the probe writes to
  the error stream a diagnostic that holds the platform's description of the error
  (\<open>strerror\<close> of the \<open>errno\<close> the failed call left), ends with exit status 1, and
  never calls \<open>shm_unlink\<close>: its calls are the open, the \<open>fprintf\<close> and the \<open>exit\<close>.
\<close>

theorem open_failure_exits_1:
  assumes "open_fails P w"
  shows "exit_status (run_probe P w) = 1
    \<and> stderr (final (run_probe P w)) =
        ''Failed to open shm: '' @ strerror P (errno P (snd (open_result P w))) @ [CHR 0x0A]
    \<and> trace (final (run_probe P w)) =
        [Shm_open ''/foo'' (O_RDONLY OR O_CREAT) S_IRWXU,
         Fprintf_stderr (''Failed to open shm: ''
           @ strerror P (errno P (snd (open_result P w))) @ [CHR 0x0A]),
         Exit 1]
    \<and> \<not> list_ex is_shm_unlink (trace (final (run_probe P w)))
    \<and> world (final (run_probe P w)) = snd (open_result P w)"
  by (simp add: run_probe_open_fails [OF assms] exit_status_def final_def)

theorem open_failure_exits_1_witness:
  "open_fails posix locked
    \<and> exit_status (run_probe posix locked) = 1
    \<and> stderr (final (run_probe posix locked)) =
        ''Failed to open shm: Permission denied'' @ [CHR 0x0A]
    \<and> \<not> list_ex is_shm_unlink (trace (final (run_probe posix locked)))"
  using locked_open_fails open_failure_exits_1 [OF locked_open_fails]
  by (simp add: locked_reason)

text \<open>
  C2. Whenever the open succeeds and the unlink that follows fails, the probe writes to
  the error stream a diagnostic that holds the platform's description of the error and
  ends with exit status 2.
\<close>

theorem unlink_failure_exits_2:
  assumes "\<not> open_fails P w" and "unlink_fails P w"
  shows "exit_status (run_probe P w) = 2
    \<and> (\<exists>label. stderr (final (run_probe P w)) =
          label @ strerror P (errno P (snd (unlink_result P w))) @ [CHR 0x0A])
    \<and> trace (final (run_probe P w)) =
        [Shm_open ''/foo'' (O_RDONLY OR O_CREAT) S_IRWXU,
         Shm_unlink ''/foo'',
         Fprintf_stderr (stderr (final (run_probe P w))),
         Exit 2]
    \<and> world (final (run_probe P w)) = snd (unlink_result P w)"
  by (simp add: run_probe_unlink_fails [OF assms] exit_status_def final_def)

theorem unlink_failure_exits_2_witness:
  "\<not> open_fails racing fresh \<and> unlink_fails racing fresh
    \<and> exit_status (run_probe racing fresh) = 2
    \<and> (\<exists>label. stderr (final (run_probe racing fresh)) =
          label @ ''No such file or directory'' @ [CHR 0x0A])"
  using racing_open_succeeds racing_unlink_fails
    unlink_failure_exits_2 [OF racing_open_succeeds racing_unlink_fails]
  by (simp add: racing_reason)

text \<open>
  C3. Whenever both the open and the unlink succeed, the probe calls \<open>close\<close> on the
  descriptor the open returned, as its last call, and ends with exit status 0, having
  written nothing to the error stream.
\<close>

theorem success_closes_and_exits_0:
  assumes "\<not> open_fails P w" and "\<not> unlink_fails P w"
  shows "exit_status (run_probe P w) = 0
    \<and> trace (final (run_probe P w)) =
        [Shm_open ''/foo'' (O_RDONLY OR O_CREAT) S_IRWXU,
         Shm_unlink ''/foo'',
         Close (fst (open_result P w))]
    \<and> world (final (run_probe P w)) =
        snd (close P (fst (open_result P w)) (snd (unlink_result P w)))
    \<and> stderr (final (run_probe P w)) = []"
  by (simp add: run_probe_success [OF assms] exit_status_def final_def)

theorem success_closes_and_exits_0_witness:
  "\<not> open_fails posix fresh \<and> \<not> unlink_fails posix fresh
    \<and> exit_status (run_probe posix fresh) = 0
    \<and> trace (final (run_probe posix fresh)) =
        [Shm_open ''/foo'' (O_RDONLY OR O_CREAT) S_IRWXU, Shm_unlink ''/foo'', Close 3]
    \<and> \<not> fd_open (world (final (run_probe posix fresh))) 3"
  using fresh_open_succeeds fresh_unlink_succeeds
    success_closes_and_exits_0 [OF fresh_open_succeeds fresh_unlink_succeeds]
    fresh_fd_3_closed
  by (simp add: fresh_final_world fresh_open_result)

text \<open>
  C4. Whatever the platform's open and unlink do, the exit status of the probe is 1 when
  the open fails, 2 when the open succeeds and the unlink fails, and 0 otherwise, so it
  is always one of 0, 1 and 2. \<open>run_probe\<close> is a total function of the platform and
  the world: every run ends in one of these three outcomes.
\<close>

theorem exit_status_three_outcomes:
  "exit_status (run_probe P w) =
     (if open_fails P w then 1 else if unlink_fails P w then 2 else 0)
   \<and> exit_status (run_probe P w) \<in> {0, 1, 2}"
  by (simp add: exit_status_open_fails exit_status_unlink_fails exit_status_success)

text \<open>
  C5. On the reference platform, from any world in which the name \<open>/foo\<close> is absent
  and a descriptor can be handed out, the open and the unlink both succeed, the probe
  ends with exit status 0, and the final namespace does not hold the name (it is the
  initial namespace).
\<close>

theorem probe_creates_and_cleans_up:
  assumes "namespace w ''/foo'' = None" and "fd_available w"
  shows "\<not> open_fails posix w \<and> \<not> unlink_fails posix w
    \<and> exit_status (run_probe posix w) = 0
    \<and> namespace (world (final (run_probe posix w))) ''/foo'' = None
    \<and> namespace (world (final (run_probe posix w))) = namespace w"
  using assms posix_absent_open_succeeds [OF assms]
    posix_unlink_after_open [OF posix_absent_open_succeeds [OF assms]]
  by (simp add: posix_run_absent_available [OF assms])

theorem probe_creates_and_cleans_up_witness:
  "namespace fresh ''/foo'' = None \<and> fd_available fresh
    \<and> exit_status (run_probe posix fresh) = 0
    \<and> namespace (world (final (run_probe posix fresh))) ''/foo'' = None"
  using fresh_absent fresh_fd_available
    probe_creates_and_cleans_up [OF fresh_absent fresh_fd_available]
  by simp





text \<open>
  C8. A run that ends with exit status 1 or with exit status 2 never calls \<open>close\<close>.
\<close>

theorem failure_paths_skip_close:
  assumes "exit_status (run_probe P w) = 1 \<or> exit_status (run_probe P w) = 2"
  shows "\<not> list_ex is_close (trace (final (run_probe P w)))"
proof (cases "open_fails P w")
  case True
  then show ?thesis by (simp add: run_probe_open_fails final_def)
next
  case False
  show ?thesis
  proof (cases "unlink_fails P w")
    case True
    with False show ?thesis by (simp add: run_probe_unlink_fails final_def)
  next
    case u: False
    from False u have "exit_status (run_probe P w) = 0"
      by (rule exit_status_success)
    with assms show ?thesis by simp
  qed
qed

theorem failure_paths_skip_close_witness:
  "exit_status (run_probe posix locked) = 1
    \<and> \<not> list_ex is_close (trace (final (run_probe posix locked)))
    \<and> exit_status (run_probe racing fresh) = 2
    \<and> \<not> list_ex is_close (trace (final (run_probe racing fresh)))"
proof -
  have one: "exit_status (run_probe posix locked) = 1"
    by (rule exit_status_open_fails [OF locked_open_fails])
  have two: "exit_status (run_probe racing fresh) = 2"
    by (rule exit_status_unlink_fails [OF racing_open_succeeds racing_unlink_fails])
  from failure_paths_skip_close [of posix locked] failure_paths_skip_close [of racing fresh]
  show ?thesis
    using one two by simp
qed




text \<open>
  C10. When the open succeeds and the unlink fails, the text written to the error stream
  is \<open>Failed to close shm: \<close>, the platform's description of the error and a newline:
  the message names a close although the call that failed is the unlink. The text is the
  argument of the run's only \<open>fprintf\<close>, made between the unlink and \<open>exit (2)\<close>.
\<close>

theorem unlink_failure_says_close:
  assumes "\<not> open_fails P w" and "unlink_fails P w"
  shows "stderr (final (run_probe P w)) =
      ''Failed to close shm: '' @ strerror P (errno P (snd (unlink_result P w))) @ [CHR 0x0A]
    \<and> drop 2 (trace (final (run_probe P w))) =
      [Fprintf_stderr (''Failed to close shm: ''
         @ strerror P (errno P (snd (unlink_result P w))) @ [CHR 0x0A]),
       Exit 2]
    \<and> take 2 (trace (final (run_probe P w))) =
      [Shm_open ''/foo'' (O_RDONLY OR O_CREAT) S_IRWXU, Shm_unlink ''/foo'']"
  by (simp add: run_probe_unlink_fails [OF assms] final_def)

theorem unlink_failure_says_close_witness:
  "\<not> open_fails racing fresh \<and> unlink_fails racing fresh
    \<and> stderr (final (run_probe racing fresh)) =
        ''Failed to close shm: No such file or directory'' @ [CHR 0x0A]"
  using racing_open_succeeds racing_unlink_fails
    unlink_failure_says_close [OF racing_open_succeeds racing_unlink_fails]
  by (simp add: racing_reason)

end
